theory Spec2Isabelle
  imports Main "HOL-Library.Word"
begin

unbundle bit_operations_syntax

section \<open>Python values, exceptions and dictionaries\<close>

text \<open>
  The values a settings dictionary of \<^verbatim>\<open>sispo/compression/compression.py\<close> holds:
  \<^verbatim>\<open>None\<close>, booleans, (unbounded) integers, strings and tuples. The parameter tuple that
  \<^verbatim>\<open>select_algo\<close> builds for OpenCV is a \<open>PTuple\<close>.
\<close>

datatype pyval = PNone | PBool bool | PInt int | PStr string | PTuple "pyval list"

text \<open>
  The exceptions the module can raise. \<open>CompressionError\<close> is the module's own class and
  carries its message; the others are Python's built-in exceptions, \<open>CodecError\<close> is an
  error raised inside one of the external codecs, \<open>OSError\<close> a failing \<^verbatim>\<open>open\<close>.
\<close>

datatype error =
    CompressionError string
  | KeyError string
  | TypeError
  | ValueError
  | AttributeError string
  | IndexError
  | CodecError string
  | OSError

type_synonym settings = "string \<rightharpoonup> pyval"

text \<open>\<^verbatim>\<open>settings[k]\<close> raises \<^verbatim>\<open>KeyError\<close> on a missing key.\<close>

definition getitem :: "settings \<Rightarrow> string \<Rightarrow> error + pyval" where
  "getitem d k = (case d k of None \<Rightarrow> Inl (KeyError k) | Some v \<Rightarrow> Inr v)"

text \<open>
  \<^verbatim>\<open>isinstance(v, bool)\<close> and \<^verbatim>\<open>isinstance(v, int)\<close>: in Python \<^verbatim>\<open>bool\<close> is a
  subclass of \<^verbatim>\<open>int\<close>, so a boolean is an instance of both.
\<close>

fun isinstance_bool :: "pyval \<Rightarrow> bool" where
  "isinstance_bool (PBool b) = True"
| "isinstance_bool v = False"

fun isinstance_int :: "pyval \<Rightarrow> bool" where
  "isinstance_int (PBool b) = True"
| "isinstance_int (PInt i) = True"
| "isinstance_int v = False"

text \<open>
  \<^verbatim>\<open>v * 10\<close>: integer multiplication (a boolean counts as 0 or 1), repetition of a
  string or a tuple, \<^verbatim>\<open>TypeError\<close> for \<^verbatim>\<open>None\<close>.
\<close>

fun times_ten :: "pyval \<Rightarrow> error + pyval" where
  "times_ten (PInt i) = Inr (PInt (i * 10))"
| "times_ten (PBool b) = Inr (PInt (if b then 10 else 0))"
| "times_ten (PStr s) = Inr (PStr (concat (replicate 10 s)))"
| "times_ten (PTuple xs) = Inr (PTuple (concat (replicate 10 xs)))"
| "times_ten PNone = Inl TypeError"

text \<open>\<^verbatim>\<open>str.lower()\<close> on the ASCII letters; every other character is kept.\<close>

definition lower_char :: "char \<Rightarrow> char" where
  "lower_char c =
     (let n = (of_char c :: nat) in if 65 \<le> n \<and> n \<le> 90 then char_of (n + 32) else c)"

definition lower :: "string \<Rightarrow> string" where
  "lower s = map lower_char s"

text \<open>The truth value of a string used as a condition: a string is true unless empty.\<close>

definition truthy :: "string \<Rightarrow> bool" where
  "truthy s = (s \<noteq> [])"

section \<open>The constants of OpenCV that the module names\<close>

definition IMWRITE_JPEG_QUALITY :: int where "IMWRITE_JPEG_QUALITY = 1"
definition IMWRITE_JPEG_PROGRESSIVE :: int where "IMWRITE_JPEG_PROGRESSIVE = 2"
definition IMWRITE_JPEG_OPTIMIZE :: int where "IMWRITE_JPEG_OPTIMIZE = 3"
definition IMWRITE_JPEG_RST_INTERVAL :: int where "IMWRITE_JPEG_RST_INTERVAL = 4"
definition IMWRITE_JPEG_LUMA_QUALITY :: int where "IMWRITE_JPEG_LUMA_QUALITY = 5"
definition IMWRITE_JPEG_CHROMA_QUALITY :: int where "IMWRITE_JPEG_CHROMA_QUALITY = 6"
definition IMWRITE_PNG_COMPRESSION :: int where "IMWRITE_PNG_COMPRESSION = 16"
definition IMREAD_UNCHANGED :: int where "IMREAD_UNCHANGED = - 1"

section \<open>Arrays and byte buffers\<close>

type_synonym byte = "8 word"

text \<open>
  A numpy array, as far as the module looks at it: its shape and its samples in row-major
  order. A \<^verbatim>\<open>float32\<close> sample is its 32-bit pattern, so equality of arrays is
  bit-for-bit equality.
\<close>

datatype ndarray = Float32 "nat list" "32 word list" | UInt8 "nat list" "byte list"

definition to_le_bytes :: "32 word \<Rightarrow> byte list" where
  "to_le_bytes w = [ucast w, ucast (drop_bit 8 w), ucast (drop_bit 16 w), ucast (drop_bit 24 w)]"

definition from_le_bytes :: "byte \<Rightarrow> byte \<Rightarrow> byte \<Rightarrow> byte \<Rightarrow> 32 word" where
  "from_le_bytes a b c d =
     ucast a OR push_bit 8 (ucast b) OR push_bit 16 (ucast c) OR push_bit 24 (ucast d)"

text \<open>
  The buffer a codec reads when it is handed an array: the samples' bytes, in order, each
  sample with its least significant byte first.
\<close>

fun buffer :: "ndarray \<Rightarrow> byte list" where
  "buffer (Float32 shp xs) = concat (map to_le_bytes xs)"
| "buffer (UInt8 shp bs) = bs"

text \<open>
  \<^verbatim>\<open>np.frombuffer(b, dtype=np.float32)\<close>: a one-dimensional array of the samples in
  \<open>b\<close>; \<^verbatim>\<open>ValueError\<close> when the length of \<open>b\<close> is not a multiple of the element size.
\<close>

fun samples_of :: "byte list \<Rightarrow> 32 word list" where
  "samples_of (a # b # c # d # bs) = from_le_bytes a b c d # samples_of bs"
| "samples_of bs = []"

definition frombuffer_float32 :: "byte list \<Rightarrow> error + ndarray" where
  "frombuffer_float32 b =
     (if length b mod 4 = 0 then Inr (Float32 [length b div 4] (samples_of b))
      else Inl ValueError)"

definition frombuffer_uint8 :: "byte list \<Rightarrow> ndarray" where
  "frombuffer_uint8 b = UInt8 [length b] b"

text \<open>
  \<^verbatim>\<open>a.reshape(shape)\<close>: the same samples under a new shape; \<^verbatim>\<open>ValueError\<close> when
  the number of samples is not the product of the new shape.
\<close>

fun size_of :: "ndarray \<Rightarrow> nat" where
  "size_of (Float32 shp xs) = length xs"
| "size_of (UInt8 shp bs) = length bs"

fun with_shape :: "nat list \<Rightarrow> ndarray \<Rightarrow> ndarray" where
  "with_shape shp (Float32 old xs) = Float32 shp xs"
| "with_shape shp (UInt8 old bs) = UInt8 shp bs"

definition reshape :: "ndarray \<Rightarrow> nat list \<Rightarrow> error + ndarray" where
  "reshape a shp = (if size_of a = prod_list shp then Inr (with_shape shp a) else Inl ValueError)"

section \<open>The external collaborators\<close>

type_synonym path = "string list"

type_synonym filesystem = "path \<rightharpoonup> byte list"

datatype builtin = Bz2 | Gzip | Lzma | Zlib

text \<open>
  What the module calls and does not define: the four byte-stream codecs of Python's
  standard library (\<open>xcompress b\<close> is \<^verbatim>\<open>bz2.compress\<close>, \<^verbatim>\<open>gzip.compress\<close>,
  \<^verbatim>\<open>lzma.compress\<close> or \<^verbatim>\<open>zlib.compress\<close>, called with the object the module
  hands it, which is the array itself, and keyword arguments; \<open>xdecompress b\<close> is the
  matching \<^verbatim>\<open>decompress\<close>, called with bytes), OpenCV's \<^verbatim>\<open>imencode\<close> and
  \<^verbatim>\<open>imdecode\<close> (\<^verbatim>\<open>imdecode\<close> returns \<^verbatim>\<open>None\<close> for bytes it cannot parse),
  numpy's float arithmetic \<^verbatim>\<open>(img * 255).astype(np.uint8)\<close> on one sample,
  \<^verbatim>\<open>Path.glob\<close>, \<^verbatim>\<open>utils.read_openexr_image\<close>, and whether \<^verbatim>\<open>open\<close> succeeds
  on a path. They are parameters of the model.
\<close>

record env =
  xcompress :: "builtin \<Rightarrow> ndarray \<Rightarrow> settings \<Rightarrow> error + byte list"
  xdecompress :: "builtin \<Rightarrow> byte list \<Rightarrow> error + byte list"
  imencode :: "pyval \<Rightarrow> ndarray \<Rightarrow> pyval \<Rightarrow> error + byte list"
  imdecode :: "ndarray \<Rightarrow> int \<Rightarrow> error + ndarray option"
  scale_to_uint8 :: "32 word \<Rightarrow> byte"
  glob :: "filesystem \<Rightarrow> path \<Rightarrow> string \<Rightarrow> path list"
  read_openexr_image :: "filesystem \<Rightarrow> path \<Rightarrow> error + ndarray"
  can_open :: "path \<Rightarrow> bool"

section \<open>The codec wrappers\<close>

text \<open>
  \<^verbatim>\<open>_decorate_builtin_compress(func)\<close>: the returned closure calls
  \<^verbatim>\<open>func(img, **settings)\<close>: the codec gets the array itself, not a copy of its bytes,
  and every entry of the settings as a keyword argument.
\<close>

definition decorate_builtin_compress ::
  "(ndarray \<Rightarrow> settings \<Rightarrow> error + byte list) \<Rightarrow> ndarray \<Rightarrow> settings \<Rightarrow> error + byte list" where
  "decorate_builtin_compress func img settings = func img settings"

text \<open>
  \<^verbatim>\<open>_decorate_builtin_decompress(func)\<close>: decompress, read the bytes as
  \<^verbatim>\<open>float32\<close>, reshape to \<^verbatim>\<open>(2048,2464,3)\<close>.
\<close>

definition decorate_builtin_decompress ::
  "(byte list \<Rightarrow> error + byte list) \<Rightarrow> byte list \<Rightarrow> error + ndarray" where
  "decorate_builtin_decompress func img =
     (case func img of
        Inl e \<Rightarrow> Inl e
      | Inr img_dcmp \<Rightarrow>
          (case frombuffer_float32 img_dcmp of
             Inl e \<Rightarrow> Inl e
           | Inr arr \<Rightarrow> reshape arr [2048, 2464, 3]))"

text \<open>
  \<^verbatim>\<open>_decorate_cv_compress(func)\<close>: scale by 255, cast to \<^verbatim>\<open>uint8\<close> (a
  \<^verbatim>\<open>uint8\<close> array wraps around), encode with the extension and the parameters of the
  settings.
\<close>

fun times_255_uint8 :: "(32 word \<Rightarrow> byte) \<Rightarrow> ndarray \<Rightarrow> ndarray" where
  "times_255_uint8 f (Float32 shp xs) = UInt8 shp (map f xs)"
| "times_255_uint8 f (UInt8 shp bs) = UInt8 shp (map (\<lambda>b. b * 255) bs)"

definition decorate_cv_compress ::
  "(32 word \<Rightarrow> byte) \<Rightarrow> (pyval \<Rightarrow> ndarray \<Rightarrow> pyval \<Rightarrow> error + byte list) \<Rightarrow>
     ndarray \<Rightarrow> settings \<Rightarrow> error + byte list" where
  "decorate_cv_compress cast func img settings =
     (let img = times_255_uint8 cast img in
      case getitem settings ''ext'' of
        Inl e \<Rightarrow> Inl e
      | Inr ext \<Rightarrow>
          (case getitem settings ''params'' of
             Inl e \<Rightarrow> Inl e
           | Inr params \<Rightarrow> func ext img params))"

text \<open>
  \<^verbatim>\<open>_decorate_cv_decompress(func)\<close>: no reshape; the result is what
  \<^verbatim>\<open>imdecode\<close> returns.
\<close>

definition decorate_cv_decompress ::
  "(ndarray \<Rightarrow> int \<Rightarrow> error + ndarray option) \<Rightarrow> byte list \<Rightarrow> error + ndarray option" where
  "decorate_cv_decompress func img = func (frombuffer_uint8 img) IMREAD_UNCHANGED"

section \<open>The Compressor\<close>

text \<open>
  The closures that \<^verbatim>\<open>select_algo\<close> stores in \<^verbatim>\<open>_comp_met\<close> and
  \<^verbatim>\<open>_decomp_met\<close>, named by the wrapper and the codec they were built from.
\<close>

datatype encoder = BuiltinCompress builtin | CvCompress

datatype decoder = BuiltinDecompress builtin | CvDecompress

definition run_encoder :: "env \<Rightarrow> encoder \<Rightarrow> ndarray \<Rightarrow> settings \<Rightarrow> error + byte list" where
  "run_encoder E c img settings =
     (case c of
        BuiltinCompress b \<Rightarrow> decorate_builtin_compress (xcompress E b) img settings
      | CvCompress \<Rightarrow> decorate_cv_compress (scale_to_uint8 E) (imencode E) img settings)"

definition run_decoder :: "env \<Rightarrow> decoder \<Rightarrow> byte list \<Rightarrow> error + ndarray option" where
  "run_decoder E d img =
     (case d of
        BuiltinDecompress b \<Rightarrow>
          (case decorate_builtin_decompress (xdecompress E b) img of
             Inl e \<Rightarrow> Inl e
           | Inr arr \<Rightarrow> Inr (Some arr))
      | CvDecompress \<Rightarrow> decorate_cv_decompress (imdecode E) img)"

text \<open>
  A settings dictionary is a mutable object: the caller and the Compressor may hold the
  same one. Dictionaries live in a heap and are named by references; \<^verbatim>\<open>_settings\<close> is a
  reference. An attribute that has not been assigned yet is \<open>None\<close>.
\<close>

type_synonym ref = nat

record compressor =
  res_dir :: path
  image_dir :: path
  image_extension :: string
  imgs :: "ndarray list"
  img_ids :: "string list option"
  comp_met :: "encoder option"
  decomp_met :: "decoder option"
  settings_ref :: "ref option"

record state =
  heap :: "ref \<Rightarrow> settings"
  next_ref :: ref
  fs :: filesystem
  self :: compressor

subsection \<open>\<^verbatim>\<open>select_algo\<close>\<close>

text \<open>
  \<^verbatim>\<open>settings[key] = settings["level"]; settings.pop("level")\<close>, the two lines of the
  \<^verbatim>\<open>bz2\<close>, \<^verbatim>\<open>gzip\<close> and \<^verbatim>\<open>lzma\<close> branches. The result is the exception
  raised, if any, and the dictionary as the lines leave it.
\<close>

definition rename_level :: "string \<Rightarrow> settings \<Rightarrow> (error + unit) \<times> settings" where
  "rename_level key settings =
     (case getitem settings ''level'' of
        Inl e \<Rightarrow> (Inl e, settings)
      | Inr v \<Rightarrow> (Inr (), (settings(key \<mapsto> v))(''level'' := None)))"

text \<open>
  One of the five optional JPEG settings: when the key is present, its value is checked
  and the flag and the value are appended to the parameter tuple.
\<close>

definition jpeg_option ::
  "string \<Rightarrow> (pyval \<Rightarrow> bool) \<Rightarrow> int \<Rightarrow> string \<Rightarrow> settings \<Rightarrow> pyval list \<Rightarrow> error + pyval list" where
  "jpeg_option key isinstance flag msg settings params =
     (case settings key of
        None \<Rightarrow> Inr params
      | Some v \<Rightarrow>
          if isinstance v then Inr (params @ [PInt flag, v])
          else Inl (CompressionError msg))"

definition jpeg_params :: "settings \<Rightarrow> error + pyval list" where
  "jpeg_params settings =
     (case getitem settings ''level'' of
        Inl e \<Rightarrow> Inl e
      | Inr level \<Rightarrow>
     (case times_ten level of
        Inl e \<Rightarrow> Inl e
      | Inr quality \<Rightarrow>
     (case jpeg_option ''progressive'' isinstance_bool IMWRITE_JPEG_PROGRESSIVE
             ''JPEG progressive requires bool'' settings
             [PInt IMWRITE_JPEG_QUALITY, quality] of
        Inl e \<Rightarrow> Inl e
      | Inr p1 \<Rightarrow>
     (case jpeg_option ''optimize'' isinstance_bool IMWRITE_JPEG_OPTIMIZE
             ''JPEG optimize requires bool input'' settings p1 of
        Inl e \<Rightarrow> Inl e
      | Inr p2 \<Rightarrow>
     (case jpeg_option ''rst_interval'' isinstance_int IMWRITE_JPEG_RST_INTERVAL
             ''JPEG rst_interval requires int'' settings p2 of
        Inl e \<Rightarrow> Inl e
      | Inr p3 \<Rightarrow>
     (case jpeg_option ''luma_quality'' isinstance_int IMWRITE_JPEG_LUMA_QUALITY
             ''JPEG luma_quality requires int'' settings p3 of
        Inl e \<Rightarrow> Inl e
      | Inr p4 \<Rightarrow>
        jpeg_option ''chroma_quality'' isinstance_int IMWRITE_JPEG_CHROMA_QUALITY
             ''JPEG chroma_quality requires int'' settings p4))))))"

text \<open>
  The branches of \<^verbatim>\<open>select_algo\<close> on the lower-cased name, in the source's order. Each
  returns the pair of closures or the exception, and the dictionary as the branch leaves
  it: the dictionary is changed in place, also by a branch that raises afterwards. The
  condition of the sixth branch is the string \<^verbatim>\<open>"png"\<close> itself
  (\<^verbatim>\<open>elif "png":\<close>), not a comparison with \<open>algo\<close>.
\<close>

definition select_codec :: "string \<Rightarrow> settings \<Rightarrow> (error + encoder \<times> decoder) \<times> settings" where
  "select_codec algo settings =
     (if algo = ''bz2'' then
        (case rename_level ''compresslevel'' settings of
           (Inl e, d) \<Rightarrow> (Inl e, d)
         | (Inr u, d) \<Rightarrow> (Inr (BuiltinCompress Bz2, BuiltinDecompress Bz2), d))
      else if algo = ''gzip'' then
        (case rename_level ''compresslevel'' settings of
           (Inl e, d) \<Rightarrow> (Inl e, d)
         | (Inr u, d) \<Rightarrow> (Inr (BuiltinCompress Gzip, BuiltinDecompress Gzip), d))
      else if algo = ''lzma'' then
        (case rename_level ''preset'' settings of
           (Inl e, d) \<Rightarrow> (Inl e, d)
         | (Inr u, d) \<Rightarrow> (Inr (BuiltinCompress Lzma, BuiltinDecompress Lzma), d))
      else if algo = ''zlib'' then
        (Inr (BuiltinCompress Zlib, BuiltinDecompress Zlib), settings)
      else if algo = ''jpeg'' \<or> algo = ''jpg'' then
        (let d = settings(''ext'' \<mapsto> PStr ''.jpg'') in
         case jpeg_params d of
           Inl e \<Rightarrow> (Inl e, d)
         | Inr params \<Rightarrow> (Inr (CvCompress, CvDecompress), d(''params'' \<mapsto> PTuple params)))
      else if truthy ''png'' then
        (let d = settings(''ext'' \<mapsto> PStr ''.png'') in
         case getitem d ''level'' of
           Inl e \<Rightarrow> (Inl e, d)
         | Inr level \<Rightarrow>
             (Inr (CvCompress, CvDecompress),
              (d(''level'' := None))(''params'' \<mapsto> PTuple [PInt IMWRITE_PNG_COMPRESSION, level])))
      else (Inl (CompressionError ''Unknown compression algorithm.''), settings))"

text \<open>
  \<^verbatim>\<open>select_algo(algo, settings)\<close>: \<open>settings\<close> is the reference of the caller's
  dictionary. The three attributes are assigned at the end, when no branch has raised.
\<close>

definition select_algo :: "string \<Rightarrow> ref \<Rightarrow> state \<Rightarrow> (error + unit) \<times> state" where
  "select_algo algo settings st =
     (case select_codec (lower algo) (heap st settings) of
        (Inl e, d) \<Rightarrow> (Inl e, st\<lparr>heap := (heap st)(settings := d)\<rparr>)
      | (Inr (cmp, decmp), d) \<Rightarrow>
          (Inr (),
           st\<lparr>heap := (heap st)(settings := d),
              self := (self st)\<lparr>comp_met := Some cmp, decomp_met := Some decmp,
                                settings_ref := Some settings\<rparr>\<rparr>))"

subsection \<open>\<^verbatim>\<open>__init__\<close>\<close>

text \<open>
  A path is the list of its components; \<^verbatim>\<open>p / name\<close> appends one component (frame
  identifiers and file names are single components). Without an algorithm the constructor
  takes \<^verbatim>\<open>"lzma"\<close>; without settings it creates the new dictionary \<^verbatim>\<open>{"level": 9}\<close>.
\<close>

definition init :: "path \<Rightarrow> string option \<Rightarrow> ref option \<Rightarrow> state \<Rightarrow> (error + unit) \<times> state" where
  "init rdir algo settings st =
     (let obj = \<lparr>res_dir = rdir, image_dir = rdir @ [''rendering''],
                 image_extension = ''.exr'', imgs = [], img_ids = None,
                 comp_met = None, decomp_met = None, settings_ref = None\<rparr>;
          algo = (case algo of None \<Rightarrow> ''lzma'' | Some a \<Rightarrow> a);
          (settings, st) =
            (case settings of
               None \<Rightarrow>
                 (next_ref st,
                  st\<lparr>heap := (heap st)(next_ref st := [''level'' \<mapsto> PInt 9]),
                     next_ref := Suc (next_ref st)\<rparr>)
             | Some r \<Rightarrow> (r, st))
      in select_algo algo settings (st\<lparr>self := obj\<rparr>))"

subsection \<open>\<^verbatim>\<open>get_frame_ids\<close> and \<^verbatim>\<open>load_images\<close>\<close>

text \<open>
  \<^verbatim>\<open>s.strip(chars)\<close> removes from both ends of \<open>s\<close> every character that occurs in
  \<open>chars\<close>; \<^verbatim>\<open>path.name\<close> is the last component.
\<close>

definition strip :: "string \<Rightarrow> string \<Rightarrow> string" where
  "strip s chars =
     rev (dropWhile (\<lambda>c. c \<in> set chars) (rev (dropWhile (\<lambda>c. c \<in> set chars) s)))"

definition path_name :: "path \<Rightarrow> string" where
  "path_name p = (if p = [] then [] else last p)"

definition get_frame_ids :: "env \<Rightarrow> state \<Rightarrow> string list" where
  "get_frame_ids E st =
     (let scene_name = ''Comp'';
          image_names = scene_name @ ''*'' @ image_extension (self st);
          file_names = glob E (fs st) (image_dir (self st)) image_names
      in map (\<lambda>file_name.
                strip (strip (strip (path_name file_name) (image_extension (self st)))
                         scene_name) ''_'')
           file_names)"

text \<open>
  The loop of \<^verbatim>\<open>load_images\<close>: an image that cannot be read raises, and the images
  appended before it stay in the list.
\<close>

fun load_loop :: "env \<Rightarrow> string list \<Rightarrow> state \<Rightarrow> (error + unit) \<times> state" where
  "load_loop E [] st = (Inr (), st)"
| "load_loop E (i # ids) st =
     (let img_path = image_dir (self st) @ [''Comp_'' @ i @ image_extension (self st)] in
      case read_openexr_image E (fs st) img_path of
        Inl e \<Rightarrow> (Inl e, st)
      | Inr img \<Rightarrow> load_loop E ids (st\<lparr>self := (self st)\<lparr>imgs := imgs (self st) @ [img]\<rparr>\<rparr>))"

definition load_images :: "env \<Rightarrow> string list option \<Rightarrow> state \<Rightarrow> (error + unit) \<times> state" where
  "load_images E ids st =
     (let ids = (case ids of None \<Rightarrow> get_frame_ids E st | Some l \<Rightarrow> l);
          st = st\<lparr>self := (self st)\<lparr>img_ids := Some ids\<rparr>\<rparr>
      in load_loop E ids st)"


subsection \<open>\<^verbatim>\<open>compress\<close>, \<^verbatim>\<open>compress_series\<close> and \<^verbatim>\<open>decompress\<close>\<close>

text \<open>
  \<^verbatim>\<open>compress(img)\<close>: encode with \<^verbatim>\<open>_comp_met\<close> and \<^verbatim>\<open>_settings\<close>, open the file
  \<^verbatim>\<open>image_dir / img_ids[0]\<close> for writing (which creates or truncates it), write the
  artifact, return it.
\<close>

definition destination :: "compressor \<Rightarrow> error + path" where
  "destination c =
     (case img_ids c of
        None \<Rightarrow> Inl (AttributeError ''img_ids'')
      | Some [] \<Rightarrow> Inl IndexError
      | Some (i # ids) \<Rightarrow> Inr (image_dir c @ [i]))"

definition compress :: "env \<Rightarrow> ndarray \<Rightarrow> state \<Rightarrow> (error + byte list) \<times> state" where
  "compress E img st =
     (case comp_met (self st) of
        None \<Rightarrow> (Inl (AttributeError ''_comp_met''), st)
      | Some c \<Rightarrow>
     (case settings_ref (self st) of
        None \<Rightarrow> (Inl (AttributeError ''_settings''), st)
      | Some r \<Rightarrow>
     (case run_encoder E c img (heap st r) of
        Inl e \<Rightarrow> (Inl e, st)
      | Inr img_cmp \<Rightarrow>
     (case destination (self st) of
        Inl e \<Rightarrow> (Inl e, st)
      | Inr p \<Rightarrow>
          if can_open E p then (Inr img_cmp, st\<lparr>fs := (fs st)(p \<mapsto> img_cmp)\<rparr>)
          else (Inl OSError, st)))))"

fun compress_loop :: "env \<Rightarrow> ndarray list \<Rightarrow> state \<Rightarrow> (error + unit) \<times> state" where
  "compress_loop E [] st = (Inr (), st)"
| "compress_loop E (img # rest) st =
     (case compress E img st of
        (Inl e, st') \<Rightarrow> (Inl e, st')
      | (Inr img_cmp, st') \<Rightarrow> compress_loop E rest st')"

definition compress_series :: "env \<Rightarrow> state \<Rightarrow> (error + unit) \<times> state" where
  "compress_series E st = compress_loop E (imgs (self st)) st"

definition decompress :: "env \<Rightarrow> byte list option \<Rightarrow> state \<Rightarrow> error + ndarray option" where
  "decompress E img st =
     (case (case img of
              Some b \<Rightarrow> Inr b
            | None \<Rightarrow>
                (case destination (self st) of
                   Inl e \<Rightarrow> Inl e
                 | Inr p \<Rightarrow>
                     (case fs st p of
                        None \<Rightarrow> Inl OSError
                      | Some b \<Rightarrow> if can_open E p then Inr b else Inl OSError))) of
        Inl e \<Rightarrow> Inl e
      | Inr b \<Rightarrow>
          (case decomp_met (self st) of
             None \<Rightarrow> Inl (AttributeError ''_decomp_met'')
           | Some d \<Rightarrow> run_decoder E d b))"

section \<open>Contracts of the external codecs and example objects\<close>







text \<open>
  A state in which nothing has been constructed yet, and an environment whose codecs
  store the data as it is, for the examples below.
\<close>

definition start :: state where
  "start =
     \<lparr>heap = (\<lambda>r. Map.empty), next_ref = 0, fs = Map.empty,
      self = \<lparr>res_dir = [], image_dir = [], image_extension = [], imgs = [], img_ids = None,
               comp_met = None, decomp_met = None, settings_ref = None\<rparr>\<rparr>"

definition stored :: env where
  "stored =
     \<lparr>xcompress = (\<lambda>b data kw. Inr (buffer data)), xdecompress = (\<lambda>b art. Inr art),
      imencode = (\<lambda>ext img params. Inr (buffer img)),
      imdecode = (\<lambda>a flag. Inr (Some a)),
      scale_to_uint8 = (\<lambda>w. ucast w),
      glob = (\<lambda>files dir pattern. []),
      read_openexr_image =
        (\<lambda>files p. case files p of None \<Rightarrow> Inl OSError | Some b \<Rightarrow> Inr (frombuffer_uint8 b)),
      can_open = (\<lambda>p. True)\<rparr>"

text \<open>
  An environment whose byte-stream codecs put the value of the keyword argument
  \<^verbatim>\<open>level\<close> in front of the data (255 when the keyword is absent), as the real
  codecs record the level in the header of the stream.
\<close>

definition leveled :: env where
  "leveled =
     stored\<lparr>xcompress :=
       (\<lambda>b data kw.
          Inr ((case kw ''level'' of Some (PInt l) \<Rightarrow> word_of_int l | _ \<Rightarrow> 255) # buffer data)),
             xdecompress := (\<lambda>b art. Inr (tl art))\<rparr>"




text \<open>The state in which the dictionary \<open>d\<close> lives at the reference \<open>r\<close>.\<close>

definition with_dict :: "ref \<Rightarrow> settings \<Rightarrow> state \<Rightarrow> state" where
  "with_dict r d st = st\<lparr>heap := (heap st)(r := d)\<rparr>"

text \<open>
  An optional setting is well typed when it is absent or passes its \<^verbatim>\<open>isinstance\<close>
  check; what it contributes to the parameter tuple is its flag and its value when it is
  present, and nothing when it is absent.
\<close>

definition well_typed :: "(pyval \<Rightarrow> bool) \<Rightarrow> settings \<Rightarrow> string \<Rightarrow> bool" where
  "well_typed isinstance d key = (case d key of None \<Rightarrow> True | Some v \<Rightarrow> isinstance v)"

definition appended :: "settings \<Rightarrow> string \<Rightarrow> int \<Rightarrow> pyval list" where
  "appended d key flag = (case d key of None \<Rightarrow> [] | Some v \<Rightarrow> [PInt flag, v])"

text \<open>
  A Compressor as the default constructor leaves it for the result directory
  \<^verbatim>\<open>res\<close>, after one image has been loaded under the frame identifier
  \<^verbatim>\<open>0001\<close>; the image directory holds the files of two more frames.
\<close>

definition loaded :: state where
  "loaded =
     \<lparr>heap = (\<lambda>r. Map.empty)(0 := [''preset'' \<mapsto> PInt 9]), next_ref = 1,
      fs = [[''res'', ''rendering'', ''Comp_0002.exr''] \<mapsto> [1, 2],
            [''res'', ''rendering'', ''Comp_0003.exr''] \<mapsto> [3]],
      self = \<lparr>res_dir = [''res''], image_dir = [''res'', ''rendering''],
               image_extension = ''.exr'', imgs = [UInt8 [1] [7]], img_ids = Some [''0001''],
               comp_met = Some (BuiltinCompress Lzma),
               decomp_met = Some (BuiltinDecompress Lzma), settings_ref = Some 0\<rparr>\<rparr>"

section \<open>Buffers and arrays\<close>





lemma length_samples_of: "length (samples_of bs) = length bs div 4"
  by (induction bs rule: samples_of.induct) simp_all


text \<open>
  Whatever the byte-stream decoder returns has the fixed shape and exactly
  \<open>2048 * 2464 * 3\<close> samples, read from a buffer of four times as many bytes.
\<close>

lemma builtin_decompress_result:
  assumes "decorate_builtin_decompress func img = Inr arr"
  shows "\<exists>raw. func img = Inr raw \<and> length raw = 4 * (2048 * 2464 * 3) \<and>
           arr = Float32 [2048, 2464, 3] (samples_of raw) \<and>
           length (samples_of raw) = 2048 * 2464 * 3"
  using assms
  by (auto simp: decorate_builtin_decompress_def frombuffer_float32_def reshape_def
        length_samples_of split: sum.splits if_splits)

section \<open>Decoding a byte stream of the wrong length\<close>

text \<open>
  Claim C2. When the bytes that the codec's \<^verbatim>\<open>decompress\<close> returns are not exactly
  the \<open>4 * (2048 * 2464 * 3)\<close> bytes of \<open>2048 * 2464 * 3\<close> \<^verbatim>\<open>float32\<close> samples, the
  decoder built by \<^verbatim>\<open>_decorate_builtin_decompress\<close> raises and returns no array. The
  exception is numpy's \<^verbatim>\<open>ValueError\<close>, from \<^verbatim>\<open>frombuffer\<close> or from \<^verbatim>\<open>reshape\<close>;
  the specification calls it \<^verbatim>\<open>ReconstructionError\<close>.
\<close>

theorem builtin_decompress_rejects_wrong_length:
  assumes "func img = Inr raw" and "length raw \<noteq> 4 * (2048 * 2464 * 3)"
  shows "decorate_builtin_decompress func img = Inl ValueError"
proof (cases "length raw mod 4 = 0")
  case False
  with assms(1) show ?thesis
    by (simp add: decorate_builtin_decompress_def frombuffer_float32_def)
next
  case True
  with assms(2) have "length raw div 4 \<noteq> 15138816"
    by arith
  with assms(1) True show ?thesis
    by (simp add: decorate_builtin_decompress_def frombuffer_float32_def reshape_def
          length_samples_of)
qed

theorem builtin_decompress_rejects_wrong_length_witness:
  "decorate_builtin_decompress Inr [1, 2, 3, 4, 5, 6, 7, 8] = Inl ValueError"
  using builtin_decompress_rejects_wrong_length
          [of Inr "[1, 2, 3, 4, 5, 6, 7, 8]" "[1, 2, 3, 4, 5, 6, 7, 8]"]
  by simp

section \<open>Round trip through a lossless codec\<close>

lemma lower_lzma: "lower ''lzma'' = ''lzma''"
  by (simp add: lower_def lower_char_def)









section \<open>Selecting an algorithm\<close>

lemma lower_jpeg: "lower ''jpeg'' = ''jpeg''"
  by (simp add: lower_def lower_char_def)

lemma lower_zlib: "lower ''zlib'' = ''zlib''"
  by (simp add: lower_def lower_char_def)

lemma lower_webp: "lower ''webp'' = ''webp''"
  by (simp add: lower_def lower_char_def)

lemma jpeg_option_eq:
  "jpeg_option key isinstance flag msg d ps =
     (if well_typed isinstance d key then Inr (ps @ appended d key flag)
      else Inl (CompressionError msg))"
  by (simp add: jpeg_option_def well_typed_def appended_def split: option.splits)

lemma well_typed_ext [simp]:
  "key \<noteq> ''ext'' \<Longrightarrow> well_typed isinstance (d(''ext'' \<mapsto> v)) key = well_typed isinstance d key"
  by (simp add: well_typed_def)

lemma appended_ext [simp]:
  "key \<noteq> ''ext'' \<Longrightarrow> appended (d(''ext'' \<mapsto> v)) key flag = appended d key flag"
  by (simp add: appended_def)

lemma jpeg_params_eq:
  assumes "d ''level'' = Some level" and "times_ten level = Inr quality"
  shows "jpeg_params (d(''ext'' \<mapsto> e)) =
     (if \<not> well_typed isinstance_bool d ''progressive''
        then Inl (CompressionError ''JPEG progressive requires bool'')
      else if \<not> well_typed isinstance_bool d ''optimize''
        then Inl (CompressionError ''JPEG optimize requires bool input'')
      else if \<not> well_typed isinstance_int d ''rst_interval''
        then Inl (CompressionError ''JPEG rst_interval requires int'')
      else if \<not> well_typed isinstance_int d ''luma_quality''
        then Inl (CompressionError ''JPEG luma_quality requires int'')
      else if \<not> well_typed isinstance_int d ''chroma_quality''
        then Inl (CompressionError ''JPEG chroma_quality requires int'')
      else Inr ([PInt IMWRITE_JPEG_QUALITY, quality]
                @ appended d ''progressive'' IMWRITE_JPEG_PROGRESSIVE
                @ appended d ''optimize'' IMWRITE_JPEG_OPTIMIZE
                @ appended d ''rst_interval'' IMWRITE_JPEG_RST_INTERVAL
                @ appended d ''luma_quality'' IMWRITE_JPEG_LUMA_QUALITY
                @ appended d ''chroma_quality'' IMWRITE_JPEG_CHROMA_QUALITY))"
  using assms by (simp add: jpeg_params_def getitem_def jpeg_option_eq)

lemma select_codec_jpeg:
  assumes "a = ''jpeg'' \<or> a = ''jpg''"
  shows "select_codec a d =
     (case jpeg_params (d(''ext'' \<mapsto> PStr ''.jpg'')) of
        Inl e \<Rightarrow> (Inl e, d(''ext'' \<mapsto> PStr ''.jpg''))
      | Inr params \<Rightarrow>
          (Inr (CvCompress, CvDecompress),
           d(''ext'' \<mapsto> PStr ''.jpg'', ''params'' \<mapsto> PTuple params)))"
  using assms by (auto simp: select_codec_def Let_def)

lemma select_algo_jpeg:
  assumes "lower algo = ''jpeg'' \<or> lower algo = ''jpg''"
      and "heap st r ''level'' = Some level" and "times_ten level = Inr quality"
  shows "fst (select_algo algo r st) =
           (case jpeg_params ((heap st r)(''ext'' \<mapsto> PStr ''.jpg'')) of
              Inl e \<Rightarrow> Inl e | Inr params \<Rightarrow> Inr ())"
    and "heap (snd (select_algo algo r st)) r =
           (case jpeg_params ((heap st r)(''ext'' \<mapsto> PStr ''.jpg'')) of
              Inl e \<Rightarrow> (heap st r)(''ext'' \<mapsto> PStr ''.jpg'')
            | Inr params \<Rightarrow>
                (heap st r)(''ext'' \<mapsto> PStr ''.jpg'', ''params'' \<mapsto> PTuple params))"
  using assms(1)
  by (simp_all add: select_algo_def select_codec_jpeg split: sum.splits)

lemma select_algo_failure:
  assumes "fst (select_algo algo r st) = Inl e"
  shows "self (snd (select_algo algo r st)) = self st \<and>
         fs (snd (select_algo algo r st)) = fs st \<and>
         next_ref (snd (select_algo algo r st)) = next_ref st \<and>
         (\<forall>r'. r' \<noteq> r \<longrightarrow> heap (snd (select_algo algo r st)) r' = heap st r')"
proof (cases "select_codec (lower algo) (heap st r)")
  case (Pair res d)
  with assms show ?thesis
    by (cases res) (auto simp: select_algo_def)
qed

subsection \<open>An unknown name\<close>

text \<open>
  Claim C1 says that a name outside \<^verbatim>\<open>bz2\<close>, \<^verbatim>\<open>gzip\<close>, \<^verbatim>\<open>lzma\<close>,
  \<^verbatim>\<open>zlib\<close>, \<^verbatim>\<open>jpeg\<close>, \<^verbatim>\<open>jpg\<close>, \<^verbatim>\<open>png\<close> is rejected and installs
  nothing. The code does otherwise: the condition \<^verbatim>\<open>elif "png":\<close> is a non-empty
  string, true for every name, so the \<^verbatim>\<open>else\<close> branch that raises
  \<^verbatim>\<open>CompressionError("Unknown compression algorithm.")\<close> is never reached. Selecting
  \<^verbatim>\<open>"webp"\<close> with \<^verbatim>\<open>{"level": 6}\<close> returns normally, installs the OpenCV pair
  and turns the dictionary into the PNG settings.
\<close>

theorem select_algo_webp_installs_png:
  "select_algo ''webp'' r (st\<lparr>heap := (heap st)(r := [''level'' \<mapsto> PInt 6])\<rparr>) =
     (Inr (),
      st\<lparr>heap := (heap st)(r := [''ext'' \<mapsto> PStr ''.png'',
                                  ''params'' \<mapsto> PTuple [PInt IMWRITE_PNG_COMPRESSION, PInt 6]]),
         self := (self st)\<lparr>comp_met := Some CvCompress, decomp_met := Some CvDecompress,
                           settings_ref := Some r\<rparr>\<rparr>)"
  by (simp add: select_algo_def select_codec_def lower_webp truthy_def getitem_def)

subsection \<open>The optional JPEG settings\<close>

text \<open>
  Claim C4 as stated, for every settings mapping in which \<^verbatim>\<open>progressive\<close> is present
  and not a boolean, fails on a mapping without \<^verbatim>\<open>level\<close>: the quality
  \<^verbatim>\<open>settings["level"] * 10\<close> is computed before the options are looked at, and the
  exception is \<^verbatim>\<open>KeyError\<close>. Likewise a wrong \<^verbatim>\<open>optimize\<close> does not always
  fail with its own message: the options are checked in order, and with a wrong
  \<^verbatim>\<open>progressive\<close> before it the message is that of \<^verbatim>\<open>progressive\<close>.
\<close>

theorem jpeg_progressive_without_level_counterexample:
  "\<not> isinstance_bool (PStr ''yes'') \<and>
   fst (select_algo ''jpeg'' 0 (with_dict 0 [''progressive'' \<mapsto> PStr ''yes''] start)) =
     Inl (KeyError ''level'') \<and>
   fst (select_algo ''jpeg'' 0
          (with_dict 0 [''level'' \<mapsto> PInt 8, ''progressive'' \<mapsto> PStr ''yes'',
                        ''optimize'' \<mapsto> PStr ''yes''] start)) =
     Inl (CompressionError ''JPEG progressive requires bool'')"
  by (simp add: select_algo_def select_codec_def lower_jpeg jpeg_params_def getitem_def
        jpeg_option_def with_dict_def)

text \<open>
  Claim C4, amended. Let \<^verbatim>\<open>jpeg\<close> or \<^verbatim>\<open>jpg\<close> be selected with settings that
  hold a \<^verbatim>\<open>level\<close> which Python can multiply by 10. Then the first of
  \<^verbatim>\<open>progressive\<close>, \<^verbatim>\<open>optimize\<close> (booleans), \<^verbatim>\<open>rst_interval\<close>,
  \<^verbatim>\<open>luma_quality\<close>, \<^verbatim>\<open>chroma_quality\<close> (integers, a boolean being one) that is
  present with a value of the wrong type makes \<^verbatim>\<open>select_algo\<close> raise
  \<^verbatim>\<open>CompressionError\<close> (the specification's \<^verbatim>\<open>InvalidSetting\<close>) with that option's
  message. This happens in the selection, which calls no codec; whenever the selection
  raises, the Compressor's attributes and the files are as before.
\<close>

theorem jpeg_option_validation:
  assumes "lower algo = ''jpeg'' \<or> lower algo = ''jpg''"
      and "heap st r ''level'' = Some level" and "times_ten level = Inr quality"
  shows
    "(\<not> well_typed isinstance_bool (heap st r) ''progressive'' \<longrightarrow>
        fst (select_algo algo r st) = Inl (CompressionError ''JPEG progressive requires bool'')) \<and>
     (well_typed isinstance_bool (heap st r) ''progressive'' \<and>
      \<not> well_typed isinstance_bool (heap st r) ''optimize'' \<longrightarrow>
        fst (select_algo algo r st) = Inl (CompressionError ''JPEG optimize requires bool input'')) \<and>
     (well_typed isinstance_bool (heap st r) ''progressive'' \<and>
      well_typed isinstance_bool (heap st r) ''optimize'' \<and>
      \<not> well_typed isinstance_int (heap st r) ''rst_interval'' \<longrightarrow>
        fst (select_algo algo r st) = Inl (CompressionError ''JPEG rst_interval requires int'')) \<and>
     (well_typed isinstance_bool (heap st r) ''progressive'' \<and>
      well_typed isinstance_bool (heap st r) ''optimize'' \<and>
      well_typed isinstance_int (heap st r) ''rst_interval'' \<and>
      \<not> well_typed isinstance_int (heap st r) ''luma_quality'' \<longrightarrow>
        fst (select_algo algo r st) = Inl (CompressionError ''JPEG luma_quality requires int'')) \<and>
     (well_typed isinstance_bool (heap st r) ''progressive'' \<and>
      well_typed isinstance_bool (heap st r) ''optimize'' \<and>
      well_typed isinstance_int (heap st r) ''rst_interval'' \<and>
      well_typed isinstance_int (heap st r) ''luma_quality'' \<and>
      \<not> well_typed isinstance_int (heap st r) ''chroma_quality'' \<longrightarrow>
        fst (select_algo algo r st) = Inl (CompressionError ''JPEG chroma_quality requires int'')) \<and>
     (\<forall>e. fst (select_algo algo r st) = Inl e \<longrightarrow>
        self (snd (select_algo algo r st)) = self st \<and> fs (snd (select_algo algo r st)) = fs st)"
proof -
  have f: "fst (select_algo algo r st) =
           (case jpeg_params ((heap st r)(''ext'' \<mapsto> PStr ''.jpg'')) of
              Inl e \<Rightarrow> Inl e | Inr params \<Rightarrow> Inr ())"
    using select_algo_jpeg(1)[OF assms] .
  have p: "jpeg_params ((heap st r)(''ext'' \<mapsto> PStr ''.jpg'')) = Inl (CompressionError msg)
           \<Longrightarrow> fst (select_algo algo r st) = Inl (CompressionError msg)" for msg
    by (simp add: f)
  note q = jpeg_params_eq[where d = "heap st r" and e = "PStr ''.jpg''", OF assms(2,3)]
  have 1: "\<not> well_typed isinstance_bool (heap st r) ''progressive'' \<longrightarrow>
        fst (select_algo algo r st) = Inl (CompressionError ''JPEG progressive requires bool'')"
    by (intro impI p) (simp add: q)
  have 2: "well_typed isinstance_bool (heap st r) ''progressive'' \<and>
      \<not> well_typed isinstance_bool (heap st r) ''optimize'' \<longrightarrow>
        fst (select_algo algo r st) = Inl (CompressionError ''JPEG optimize requires bool input'')"
    by (intro impI p) (simp add: q)
  have 3: "well_typed isinstance_bool (heap st r) ''progressive'' \<and>
      well_typed isinstance_bool (heap st r) ''optimize'' \<and>
      \<not> well_typed isinstance_int (heap st r) ''rst_interval'' \<longrightarrow>
        fst (select_algo algo r st) = Inl (CompressionError ''JPEG rst_interval requires int'')"
    by (intro impI p) (simp add: q)
  have 4: "well_typed isinstance_bool (heap st r) ''progressive'' \<and>
      well_typed isinstance_bool (heap st r) ''optimize'' \<and>
      well_typed isinstance_int (heap st r) ''rst_interval'' \<and>
      \<not> well_typed isinstance_int (heap st r) ''luma_quality'' \<longrightarrow>
        fst (select_algo algo r st) = Inl (CompressionError ''JPEG luma_quality requires int'')"
    by (intro impI p) (simp add: q)
  have 5: "well_typed isinstance_bool (heap st r) ''progressive'' \<and>
      well_typed isinstance_bool (heap st r) ''optimize'' \<and>
      well_typed isinstance_int (heap st r) ''rst_interval'' \<and>
      well_typed isinstance_int (heap st r) ''luma_quality'' \<and>
      \<not> well_typed isinstance_int (heap st r) ''chroma_quality'' \<longrightarrow>
        fst (select_algo algo r st) = Inl (CompressionError ''JPEG chroma_quality requires int'')"
    by (intro impI p) (simp add: q)
  have 6: "\<forall>e. fst (select_algo algo r st) = Inl e \<longrightarrow>
        self (snd (select_algo algo r st)) = self st \<and> fs (snd (select_algo algo r st)) = fs st"
    using select_algo_failure by blast
  from 1 2 3 4 5 6 show ?thesis by (intro conjI)
qed

theorem jpeg_option_validation_witness:
  "fst (select_algo ''jpeg'' 0
          (with_dict 0 [''level'' \<mapsto> PInt 8, ''progressive'' \<mapsto> PStr ''yes''] start)) =
     Inl (CompressionError ''JPEG progressive requires bool'') \<and>
   fst (select_algo ''jpeg'' 0
          (with_dict 0 [''level'' \<mapsto> PInt 8, ''progressive'' \<mapsto> PBool True,
                        ''rst_interval'' \<mapsto> PStr ''4''] start)) =
     Inl (CompressionError ''JPEG rst_interval requires int'')"
  using jpeg_option_validation
          [of "''jpeg''"
              "with_dict 0 [''level'' \<mapsto> PInt 8, ''progressive'' \<mapsto> PStr ''yes''] start"
              0 "PInt 8" "PInt 80"]
        jpeg_option_validation
          [of "''jpeg''"
              "with_dict 0 [''level'' \<mapsto> PInt 8, ''progressive'' \<mapsto> PBool True,
                            ''rst_interval'' \<mapsto> PStr ''4''] start"
              0 "PInt 8" "PInt 80"]
  by (simp add: lower_jpeg well_typed_def with_dict_def)

text \<open>
  Claim C6. Let \<^verbatim>\<open>jpeg\<close> or \<^verbatim>\<open>jpg\<close> be selected with settings whose
  \<^verbatim>\<open>level\<close> is the integer \<open>l\<close>. The selection succeeds exactly when every optional
  setting that is present has its type, and then the parameter tuple stored under
  \<^verbatim>\<open>params\<close> is the quality flag with \<open>l * 10\<close>, followed, in the order
  \<^verbatim>\<open>progressive\<close>, \<^verbatim>\<open>optimize\<close>, \<^verbatim>\<open>rst_interval\<close>, \<^verbatim>\<open>luma_quality\<close>,
  \<^verbatim>\<open>chroma_quality\<close>, by the flag and the value of each option that is present in the
  settings and by nothing for an option that is absent.
\<close>

theorem jpeg_params_resolved:
  assumes "lower algo = ''jpeg'' \<or> lower algo = ''jpg''"
      and "heap st r ''level'' = Some (PInt l)"
  shows
    "(fst (select_algo algo r st) = Inr ()) =
       (well_typed isinstance_bool (heap st r) ''progressive'' \<and>
        well_typed isinstance_bool (heap st r) ''optimize'' \<and>
        well_typed isinstance_int (heap st r) ''rst_interval'' \<and>
        well_typed isinstance_int (heap st r) ''luma_quality'' \<and>
        well_typed isinstance_int (heap st r) ''chroma_quality'') \<and>
     (fst (select_algo algo r st) = Inr () \<longrightarrow>
        heap (snd (select_algo algo r st)) r ''params'' =
          Some (PTuple ([PInt IMWRITE_JPEG_QUALITY, PInt (l * 10)]
                  @ appended (heap st r) ''progressive'' IMWRITE_JPEG_PROGRESSIVE
                  @ appended (heap st r) ''optimize'' IMWRITE_JPEG_OPTIMIZE
                  @ appended (heap st r) ''rst_interval'' IMWRITE_JPEG_RST_INTERVAL
                  @ appended (heap st r) ''luma_quality'' IMWRITE_JPEG_LUMA_QUALITY
                  @ appended (heap st r) ''chroma_quality'' IMWRITE_JPEG_CHROMA_QUALITY)))"
proof -
  have t: "times_ten (PInt l) = Inr (PInt (l * 10))" by simp
  note f = select_algo_jpeg(1)[OF assms t]
  note h = select_algo_jpeg(2)[OF assms t]
  note q = jpeg_params_eq[where d = "heap st r" and e = "PStr ''.jpg''", OF assms(2) t]
  have a: "(fst (select_algo algo r st) = Inr ()) =
       (well_typed isinstance_bool (heap st r) ''progressive'' \<and>
        well_typed isinstance_bool (heap st r) ''optimize'' \<and>
        well_typed isinstance_int (heap st r) ''rst_interval'' \<and>
        well_typed isinstance_int (heap st r) ''luma_quality'' \<and>
        well_typed isinstance_int (heap st r) ''chroma_quality'')"
    unfolding f q by simp
  have b: "fst (select_algo algo r st) = Inr () \<longrightarrow>
        heap (snd (select_algo algo r st)) r ''params'' =
          Some (PTuple ([PInt IMWRITE_JPEG_QUALITY, PInt (l * 10)]
                  @ appended (heap st r) ''progressive'' IMWRITE_JPEG_PROGRESSIVE
                  @ appended (heap st r) ''optimize'' IMWRITE_JPEG_OPTIMIZE
                  @ appended (heap st r) ''rst_interval'' IMWRITE_JPEG_RST_INTERVAL
                  @ appended (heap st r) ''luma_quality'' IMWRITE_JPEG_LUMA_QUALITY
                  @ appended (heap st r) ''chroma_quality'' IMWRITE_JPEG_CHROMA_QUALITY))"
    unfolding a unfolding h q by simp
  from a b show ?thesis by (rule conjI)
qed

theorem jpeg_params_resolved_witness:
  "fst (select_algo ''jpeg'' 0
          (with_dict 0 [''level'' \<mapsto> PInt 8, ''progressive'' \<mapsto> PBool True,
                        ''rst_interval'' \<mapsto> PInt 4] start)) = Inr () \<and>
   heap (snd (select_algo ''jpeg'' 0
          (with_dict 0 [''level'' \<mapsto> PInt 8, ''progressive'' \<mapsto> PBool True,
                        ''rst_interval'' \<mapsto> PInt 4] start))) 0 ''params'' =
     Some (PTuple [PInt IMWRITE_JPEG_QUALITY, PInt 80,
                   PInt IMWRITE_JPEG_PROGRESSIVE, PBool True,
                   PInt IMWRITE_JPEG_RST_INTERVAL, PInt 4])"
  using jpeg_params_resolved
          [of "''jpeg''"
              "with_dict 0 [''level'' \<mapsto> PInt 8, ''progressive'' \<mapsto> PBool True,
                            ''rst_interval'' \<mapsto> PInt 4] start"
              0 8]
  by (simp add: lower_jpeg well_typed_def appended_def with_dict_def)

subsection \<open>The level of \<^verbatim>\<open>zlib\<close>\<close>

text \<open>
  Claim C5 says that with \<^verbatim>\<open>zlib\<close> the \<^verbatim>\<open>level\<close> setting is unused and the
  codec's default level applies to every encode call. In the code the \<^verbatim>\<open>zlib\<close>
  branch leaves \<^verbatim>\<open>level\<close> in the settings, and the encoder passes every entry of the
  settings as a keyword argument: after selecting \<^verbatim>\<open>zlib\<close> with \<^verbatim>\<open>{"level": 9}\<close>
  the resolved settings still hold \<^verbatim>\<open>level = 9\<close>, and a codec that looks at its
  \<^verbatim>\<open>level\<close> keyword answers differently for level 9, for level 1 and for no level.
\<close>

theorem zlib_level_counterexample:
  "heap (snd (select_algo ''zlib'' 0 (with_dict 0 [''level'' \<mapsto> PInt 9] start))) 0 ''level'' =
     Some (PInt 9) \<and>
   run_encoder leveled (BuiltinCompress Zlib) (UInt8 [1] [7])
       (heap (snd (select_algo ''zlib'' 0 (with_dict 0 [''level'' \<mapsto> PInt 9] start))) 0) =
     Inr [9, 7] \<and>
   run_encoder leveled (BuiltinCompress Zlib) (UInt8 [1] [7])
       (heap (snd (select_algo ''zlib'' 0 (with_dict 0 [''level'' \<mapsto> PInt 1] start))) 0) =
     Inr [1, 7] \<and>
   run_encoder leveled (BuiltinCompress Zlib) (UInt8 [1] [7]) Map.empty = Inr [255, 7]"
  by (simp add: select_algo_def select_codec_def lower_zlib with_dict_def run_encoder_def
        decorate_builtin_compress_def leveled_def stored_def)

text \<open>
  Claim C5, amended. Selecting \<^verbatim>\<open>zlib\<close> succeeds for every settings mapping, changes
  no dictionary, and installs the \<^verbatim>\<open>zlib\<close> pair; every encode call then hands the
  settings to \<^verbatim>\<open>zlib.compress\<close> unchanged, so a \<^verbatim>\<open>level\<close> in the settings
  reaches the codec as its keyword argument \<^verbatim>\<open>level\<close>.
\<close>

theorem zlib_level_passed_through:
  assumes "lower algo = ''zlib''"
  shows "fst (select_algo algo r st) = Inr () \<and>
         heap (snd (select_algo algo r st)) = heap st \<and>
         comp_met (self (snd (select_algo algo r st))) = Some (BuiltinCompress Zlib) \<and>
         decomp_met (self (snd (select_algo algo r st))) = Some (BuiltinDecompress Zlib) \<and>
         settings_ref (self (snd (select_algo algo r st))) = Some r \<and>
         (\<forall>E img. run_encoder E (BuiltinCompress Zlib) img (heap (snd (select_algo algo r st)) r) =
                    xcompress E Zlib img (heap st r))"
  using assms
  by (simp add: select_algo_def select_codec_def run_encoder_def decorate_builtin_compress_def)

theorem zlib_level_passed_through_witness:
  "run_encoder leveled (BuiltinCompress Zlib) (UInt8 [1] [7])
       (heap (snd (select_algo ''zlib'' 0 (with_dict 0 [''level'' \<mapsto> PInt 9] start))) 0) =
     xcompress leveled Zlib (UInt8 [1] [7]) [''level'' \<mapsto> PInt 9]"
proof -
  let ?st = "with_dict 0 [''level'' \<mapsto> PInt 9] start"
  from zlib_level_passed_through[OF lower_zlib, of 0 ?st]
  have "run_encoder leveled (BuiltinCompress Zlib) (UInt8 [1] [7])
          (heap (snd (select_algo ''zlib'' 0 ?st)) 0) =
        xcompress leveled Zlib (UInt8 [1] [7]) (heap ?st 0)"
    by blast
  then show ?thesis
    by (simp add: with_dict_def)
qed

subsection \<open>The default configuration and \<^verbatim>\<open>lzma\<close>\<close>

lemma lower_LZMA: "lower ''LZMA'' = ''lzma''"
  by code_simp

lemma select_algo_lzma:
  assumes "lower algo = ''lzma''" and "heap s r ''level'' = Some v"
  shows "select_algo algo r s =
           (Inr (),
            s\<lparr>heap := (heap s)(r := ((heap s r)(''preset'' \<mapsto> v))(''level'' := None)),
              self := (self s)\<lparr>comp_met := Some (BuiltinCompress Lzma),
                                decomp_met := Some (BuiltinDecompress Lzma),
                                settings_ref := Some r\<rparr>\<rparr>)"
  using assms by (simp add: select_algo_def select_codec_def rename_level_def getitem_def)

text \<open>
  Claim C7. Constructing a Compressor without an algorithm and without settings is the
  same as constructing it with \<^verbatim>\<open>"lzma"\<close> and a new dictionary
  \<^verbatim>\<open>{"level": 9}\<close>: the construction succeeds, the \<^verbatim>\<open>lzma\<close> pair is installed
  and the resolved settings are \<^verbatim>\<open>{"preset": 9}\<close>. In general, selecting
  \<^verbatim>\<open>lzma\<close> (in any letter case) with settings that hold a \<^verbatim>\<open>level\<close> moves its
  value to the key \<^verbatim>\<open>preset\<close>, removes \<^verbatim>\<open>level\<close>, and every encode call passes
  these settings, \<^verbatim>\<open>preset\<close> included, to \<^verbatim>\<open>lzma.compress\<close> as keyword arguments.
\<close>

theorem default_configuration:
  "init rdir None None st =
     init rdir (Some ''lzma'') (Some (next_ref st))
       (st\<lparr>heap := (heap st)(next_ref st := [''level'' \<mapsto> PInt 9]),
           next_ref := Suc (next_ref st)\<rparr>) \<and>
   fst (init rdir None None st) = Inr () \<and>
   comp_met (self (snd (init rdir None None st))) = Some (BuiltinCompress Lzma) \<and>
   decomp_met (self (snd (init rdir None None st))) = Some (BuiltinDecompress Lzma) \<and>
   settings_ref (self (snd (init rdir None None st))) = Some (next_ref st) \<and>
   heap (snd (init rdir None None st)) (next_ref st) = [''preset'' \<mapsto> PInt 9] \<and>
   (\<forall>algo r s v. lower algo = ''lzma'' \<and> heap s r ''level'' = Some v \<longrightarrow>
      fst (select_algo algo r s) = Inr () \<and>
      comp_met (self (snd (select_algo algo r s))) = Some (BuiltinCompress Lzma) \<and>
      heap (snd (select_algo algo r s)) r = ((heap s r)(''preset'' \<mapsto> v))(''level'' := None) \<and>
      (\<forall>E img. run_encoder E (BuiltinCompress Lzma) img (heap (snd (select_algo algo r s)) r) =
         xcompress E Lzma img (((heap s r)(''preset'' \<mapsto> v))(''level'' := None))))"
proof -
  have a: "init rdir None None st =
     init rdir (Some ''lzma'') (Some (next_ref st))
       (st\<lparr>heap := (heap st)(next_ref st := [''level'' \<mapsto> PInt 9]),
           next_ref := Suc (next_ref st)\<rparr>)"
    by (simp add: init_def)
  have b: "init rdir None None st =
     (Inr (),
      st\<lparr>heap := (heap st)(next_ref st := [''preset'' \<mapsto> PInt 9]),
         next_ref := Suc (next_ref st),
         self := \<lparr>res_dir = rdir, image_dir = rdir @ [''rendering''],
                   image_extension = ''.exr'', imgs = [], img_ids = None,
                   comp_met = Some (BuiltinCompress Lzma),
                   decomp_met = Some (BuiltinDecompress Lzma),
                   settings_ref = Some (next_ref st)\<rparr>\<rparr>)"
    by (simp add: init_def select_algo_lzma[OF lower_lzma])
  have c: "\<forall>algo r s v. lower algo = ''lzma'' \<and> heap s r ''level'' = Some v \<longrightarrow>
      fst (select_algo algo r s) = Inr () \<and>
      comp_met (self (snd (select_algo algo r s))) = Some (BuiltinCompress Lzma) \<and>
      heap (snd (select_algo algo r s)) r = ((heap s r)(''preset'' \<mapsto> v))(''level'' := None) \<and>
      (\<forall>E img. run_encoder E (BuiltinCompress Lzma) img (heap (snd (select_algo algo r s)) r) =
         xcompress E Lzma img (((heap s r)(''preset'' \<mapsto> v))(''level'' := None)))"
    by (simp add: select_algo_lzma run_encoder_def decorate_builtin_compress_def)
  have d: "fst (init rdir None None st) = Inr () \<and>
   comp_met (self (snd (init rdir None None st))) = Some (BuiltinCompress Lzma) \<and>
   decomp_met (self (snd (init rdir None None st))) = Some (BuiltinDecompress Lzma) \<and>
   settings_ref (self (snd (init rdir None None st))) = Some (next_ref st) \<and>
   heap (snd (init rdir None None st)) (next_ref st) = [''preset'' \<mapsto> PInt 9]"
    unfolding b by simp
  from a d c show ?thesis
    by blast
qed

theorem default_configuration_witness:
  "fst (select_algo ''LZMA'' 0 (with_dict 0 [''level'' \<mapsto> PInt 3] start)) = Inr () \<and>
   heap (snd (select_algo ''LZMA'' 0 (with_dict 0 [''level'' \<mapsto> PInt 3] start))) 0 =
     [''preset'' \<mapsto> PInt 3]"
proof -
  let ?s = "with_dict 0 [''level'' \<mapsto> PInt 3] start"
  have h: "heap ?s 0 ''level'' = Some (PInt 3)"
    by (simp add: with_dict_def)
  from default_configuration[of "[]" start] lower_LZMA h
  have "fst (select_algo ''LZMA'' 0 ?s) = Inr () \<and>
        heap (snd (select_algo ''LZMA'' 0 ?s)) 0 =
          ((heap ?s 0)(''preset'' \<mapsto> PInt 3))(''level'' := None)"
    by blast
  then show ?thesis
    by (simp add: with_dict_def fun_eq_iff)
qed

subsection \<open>A selection that raises\<close>

text \<open>
  Claim C10 says that a call of \<^verbatim>\<open>select_algo\<close> that raises leaves the resolved
  encode function, decode function and settings of the Compressor as they were. The
  attribute \<^verbatim>\<open>_settings\<close> is a reference to the caller's dictionary, and the
  dictionary is changed in place before the checks. When the caller passes the very
  dictionary that is installed, the failed call changes the resolved settings: after
  \<^verbatim>\<open>c = Compressor(res, "lzma", s)\<close> with \<^verbatim>\<open>s = {"level": 9}\<close>, the call
  \<^verbatim>\<open>c.select_algo("jpeg", s)\<close> raises \<^verbatim>\<open>KeyError\<close>, and the settings of
  \<^verbatim>\<open>c\<close> have become \<^verbatim>\<open>{"preset": 9, "ext": ".jpg"}\<close>.
\<close>

theorem failed_select_changes_installed_settings_counterexample:
  "settings_ref (self (snd (init [''res''] (Some ''lzma'') (Some 0)
       (with_dict 0 [''level'' \<mapsto> PInt 9] start)))) = Some 0 \<and>
   heap (snd (init [''res''] (Some ''lzma'') (Some 0)
       (with_dict 0 [''level'' \<mapsto> PInt 9] start))) 0 = [''preset'' \<mapsto> PInt 9] \<and>
   fst (select_algo ''jpeg'' 0 (snd (init [''res''] (Some ''lzma'') (Some 0)
       (with_dict 0 [''level'' \<mapsto> PInt 9] start)))) = Inl (KeyError ''level'') \<and>
   settings_ref (self (snd (select_algo ''jpeg'' 0 (snd (init [''res''] (Some ''lzma'') (Some 0)
       (with_dict 0 [''level'' \<mapsto> PInt 9] start)))))) = Some 0 \<and>
   heap (snd (select_algo ''jpeg'' 0 (snd (init [''res''] (Some ''lzma'') (Some 0)
       (with_dict 0 [''level'' \<mapsto> PInt 9] start))))) 0 =
     [''preset'' \<mapsto> PInt 9, ''ext'' \<mapsto> PStr ''.jpg''] \<and>
   [''preset'' \<mapsto> PInt 9, ''ext'' \<mapsto> PStr ''.jpg''] \<noteq> [''preset'' \<mapsto> PInt 9]"
proof -
  have i: "init [''res''] (Some ''lzma'') (Some 0) (with_dict 0 [''level'' \<mapsto> PInt 9] start) =
      (Inr (),
       start\<lparr>heap := (heap start)(0 := [''preset'' \<mapsto> PInt 9]),
         self := \<lparr>res_dir = [''res''], image_dir = [''res'', ''rendering''],
                   image_extension = ''.exr'', imgs = [], img_ids = None,
                   comp_met = Some (BuiltinCompress Lzma),
                   decomp_met = Some (BuiltinDecompress Lzma),
                   settings_ref = Some 0\<rparr>\<rparr>)"
    by (simp add: init_def select_algo_lzma[OF lower_lzma] with_dict_def)
  have n: "[''preset'' \<mapsto> PInt 9, ''ext'' \<mapsto> PStr ''.jpg''] \<noteq> [''preset'' \<mapsto> PInt 9]"
  proof
    assume "[''preset'' \<mapsto> PInt 9, ''ext'' \<mapsto> PStr ''.jpg''] = [''preset'' \<mapsto> PInt 9]"
    then have "[''preset'' \<mapsto> PInt 9, ''ext'' \<mapsto> PStr ''.jpg''] ''ext'' =
               [''preset'' \<mapsto> PInt 9] ''ext''"
      by (rule arg_cong)
    then show False by simp
  qed
  show ?thesis
    unfolding i using n
    by (simp add: select_algo_def select_codec_def lower_jpeg jpeg_params_def getitem_def)
qed

text \<open>
  Claim C10, amended. A call of \<^verbatim>\<open>select_algo\<close> that raises leaves the three
  attributes \<^verbatim>\<open>_comp_met\<close>, \<^verbatim>\<open>_decomp_met\<close> and \<^verbatim>\<open>_settings\<close> bound to what
  they were bound to before, and changes no dictionary other than the one the caller
  supplied; so the contents of the resolved settings are unchanged too, provided the
  supplied dictionary is not the installed one. The supplied dictionary may have been
  changed in place by the failed call (the example after the theorem: it has gained the
  key \<^verbatim>\<open>ext\<close>).
\<close>

theorem failed_select_keeps_attributes:
  assumes "fst (select_algo algo r st) = Inl e"
  shows "comp_met (self (snd (select_algo algo r st))) = comp_met (self st) \<and>
         decomp_met (self (snd (select_algo algo r st))) = decomp_met (self st) \<and>
         settings_ref (self (snd (select_algo algo r st))) = settings_ref (self st) \<and>
         (\<forall>r'. r' \<noteq> r \<longrightarrow> heap (snd (select_algo algo r st)) r' = heap st r') \<and>
         (\<forall>r'. settings_ref (self st) = Some r' \<and> r' \<noteq> r \<longrightarrow>
            heap (snd (select_algo algo r st)) r' = heap st r')"
  using select_algo_failure[OF assms] by simp

theorem failed_select_keeps_attributes_witness:
  "fst (select_algo ''jpeg'' 1
          (with_dict 1 [''level'' \<mapsto> PInt 8, ''progressive'' \<mapsto> PStr ''yes'']
             (snd (init [''res''] None None start)))) =
     Inl (CompressionError ''JPEG progressive requires bool'') \<and>
   comp_met (self (snd (select_algo ''jpeg'' 1
          (with_dict 1 [''level'' \<mapsto> PInt 8, ''progressive'' \<mapsto> PStr ''yes'']
             (snd (init [''res''] None None start)))))) = Some (BuiltinCompress Lzma) \<and>
   heap (snd (select_algo ''jpeg'' 1
          (with_dict 1 [''level'' \<mapsto> PInt 8, ''progressive'' \<mapsto> PStr ''yes'']
             (snd (init [''res''] None None start))))) 0 = [''preset'' \<mapsto> PInt 9] \<and>
   heap (snd (select_algo ''jpeg'' 1
          (with_dict 1 [''level'' \<mapsto> PInt 8, ''progressive'' \<mapsto> PStr ''yes'']
             (snd (init [''res''] None None start))))) 1 ''ext'' = Some (PStr ''.jpg'') \<and>
   heap (with_dict 1 [''level'' \<mapsto> PInt 8, ''progressive'' \<mapsto> PStr ''yes'']
             (snd (init [''res''] None None start))) 1 ''ext'' = None"
proof -
  let ?st = "with_dict 1 [''level'' \<mapsto> PInt 8, ''progressive'' \<mapsto> PStr ''yes'']
               (snd (init [''res''] None None start))"
  have i: "snd (init [''res''] None None start) =
       start\<lparr>heap := (heap start)(0 := [''preset'' \<mapsto> PInt 9]),
         next_ref := Suc 0,
         self := \<lparr>res_dir = [''res''], image_dir = [''res'', ''rendering''],
                   image_extension = ''.exr'', imgs = [], img_ids = None,
                   comp_met = Some (BuiltinCompress Lzma),
                   decomp_met = Some (BuiltinDecompress Lzma),
                   settings_ref = Some 0\<rparr>\<rparr>"
    by (simp add: init_def select_algo_lzma[OF lower_lzma] start_def)
  have f: "fst (select_algo ''jpeg'' 1 ?st) =
             Inl (CompressionError ''JPEG progressive requires bool'')"
    unfolding i
    by (simp add: select_algo_def select_codec_def lower_jpeg jpeg_params_def getitem_def
          jpeg_option_def with_dict_def)
  have x: "heap (snd (select_algo ''jpeg'' 1 ?st)) 1 ''ext'' = Some (PStr ''.jpg'')"
    unfolding i
    by (simp add: select_algo_def select_codec_def lower_jpeg jpeg_params_def getitem_def
          jpeg_option_def with_dict_def)
  have s: "comp_met (self ?st) = Some (BuiltinCompress Lzma)"
          "heap ?st 0 = [''preset'' \<mapsto> PInt 9]" "heap ?st 1 ''ext'' = None"
    unfolding i by (simp_all add: with_dict_def start_def)
  from failed_select_keeps_attributes[OF f]
  have "comp_met (self (snd (select_algo ''jpeg'' 1 ?st))) = comp_met (self ?st)"
       "heap (snd (select_algo ''jpeg'' 1 ?st)) 0 = heap ?st 0"
    by simp_all
  with f x s show ?thesis by simp
qed

section \<open>Loading images\<close>

lemma load_loop_frame:
  "fs (snd (load_loop E ids st)) = fs st \<and>
   image_dir (self (snd (load_loop E ids st))) = image_dir (self st) \<and>
   image_extension (self (snd (load_loop E ids st))) = image_extension (self st)"
  by (induction ids arbitrary: st) (auto simp: Let_def split: sum.splits)







section \<open>Compressing an image\<close>

lemma compress_success:
  assumes "compress E img st = (Inr a, st')"
  shows "\<exists>c r i ids.
           comp_met (self st) = Some c \<and> settings_ref (self st) = Some r \<and>
           img_ids (self st) = Some (i # ids) \<and>
           run_encoder E c img (heap st r) = Inr a \<and>
           st' = st\<lparr>fs := (fs st)(image_dir (self st) @ [i] \<mapsto> a)\<rparr>"
  using assms
  by (auto simp: compress_def destination_def
        split: option.splits sum.splits list.splits if_splits)

lemma compress_returns:
  assumes "comp_met (self st) = Some c" and "settings_ref (self st) = Some r"
      and "img_ids (self st) = Some (i # ids)" and "can_open E (image_dir (self st) @ [i])"
      and "run_encoder E c img (heap st r) = Inr a"
  shows "compress E img st = (Inr a, st\<lparr>fs := (fs st)(image_dir (self st) @ [i] \<mapsto> a)\<rparr>)"
  using assms by (simp add: compress_def destination_def)

lemma compress_self: "self (snd (compress E img st)) = self st"
  by (simp add: compress_def split: option.splits sum.splits)

lemma compress_loop_self: "self (snd (compress_loop E images st)) = self st"
proof (induction images arbitrary: st)
  case Nil
  show ?case by simp
next
  case (Cons img rest)
  show ?case
  proof (cases "compress E img st")
    case (Pair res st')
    then have s: "self st' = self st"
      using compress_self[of E img st] by simp
    show ?thesis
    proof (cases res)
      case (Inl e)
      with Pair s show ?thesis by simp
    next
      case (Inr img_cmp)
      with Pair s Cons.IH[of st'] show ?thesis by simp
    qed
  qed
qed

lemma load_loop_img_ids:
  "img_ids (self (snd (load_loop E ids st))) = img_ids (self st)"
  by (induction ids arbitrary: st) (auto simp: Let_def split: sum.splits)

lemma load_images_destination:
  "destination (self (snd (load_images E ids st))) =
     (case (case ids of None \<Rightarrow> get_frame_ids E st | Some l \<Rightarrow> l) of
        [] \<Rightarrow> Inl IndexError
      | j # js \<Rightarrow> Inr (image_dir (self st) @ [j]))"
proof -
  let ?ids = "case ids of None \<Rightarrow> get_frame_ids E st | Some l \<Rightarrow> l"
  let ?st = "st\<lparr>self := (self st)\<lparr>img_ids := Some ?ids\<rparr>\<rparr>"
  let ?X = "snd (load_loop E ?ids ?st)"
  have i: "img_ids (self ?X) = Some ?ids"
    by (simp add: load_loop_img_ids)
  have j: "image_dir (self ?X) = image_dir (self st)"
    using load_loop_frame[of E ?ids ?st] by simp
  have d: "destination (self ?X) =
        (case ?ids of [] \<Rightarrow> Inl IndexError | j # js \<Rightarrow> Inr (image_dir (self st) @ [j]))"
    unfolding destination_def i j by simp
  have "snd (load_images E ids st) = ?X"
    by (simp add: load_images_def Let_def)
  with d show ?thesis
    by (simp only:)
qed

text \<open>
  Claim C8 says that the file \<^verbatim>\<open>compress\<close> writes is named after the first loaded
  frame identifier and that the name is the same across all calls. The name is
  \<^verbatim>\<open>img_ids[0]\<close>, and \<^verbatim>\<open>load_images\<close> replaces \<^verbatim>\<open>img_ids\<close> at every call
  while the images accumulate. With the frame \<^verbatim>\<open>0001\<close> loaded first, a
  \<^verbatim>\<open>compress\<close>, then \<^verbatim>\<open>load_images(["0002"])\<close>, then another \<^verbatim>\<open>compress\<close>
  write two files: the second artifact goes to \<^verbatim>\<open>0002\<close>, and the first is not
  overwritten.
\<close>

theorem compress_destination_moves_counterexample:
  "(let st1 = snd (compress stored (UInt8 [1] [7]) loaded);
        st2 = snd (load_images stored (Some [''0002'']) st1);
        st3 = snd (compress stored (UInt8 [1] [8]) st2)
    in img_ids (self loaded) = Some [''0001''] \<and>
       fst (compress stored (UInt8 [1] [7]) loaded) = Inr [7] \<and>
       destination (self st1) = Inr [''res'', ''rendering'', ''0001''] \<and>
       fst (load_images stored (Some [''0002'']) st1) = Inr () \<and>
       imgs (self st2) = [UInt8 [1] [7], UInt8 [2] [1, 2]] \<and>
       destination (self st2) = Inr [''res'', ''rendering'', ''0002''] \<and>
       fst (compress stored (UInt8 [1] [8]) st2) = Inr [8] \<and>
       fs st3 [''res'', ''rendering'', ''0001''] = Some [7] \<and>
       fs st3 [''res'', ''rendering'', ''0002''] = Some [8])"
  by (simp add: Let_def compress_def destination_def run_encoder_def
        decorate_builtin_compress_def load_images_def stored_def loaded_def
        frombuffer_uint8_def)

text \<open>
  Claim C8, amended. Every call of \<^verbatim>\<open>compress\<close> that returns an artifact returns the
  output of the resolved encoder on the image and has written it to the file
  \<^verbatim>\<open>image_dir / img_ids[0]\<close>, changing nothing else; two such calls in a row write
  the same file, which then holds the second artifact. The call does return the artifact
  whenever the encoder returns one, the identifier list is not empty and the file can be
  opened. No call of \<^verbatim>\<open>compress\<close>, returning or raising, and no run of them as
  \<^verbatim>\<open>compress_series\<close> makes, changes the attributes of the Compressor, so the
  destination stays the same as long as no \<^verbatim>\<open>load_images\<close> call intervenes. A
  \<^verbatim>\<open>load_images\<close> call replaces the identifier list: after it the destination is
  named after the first identifier of that call (of the most recent load, not of the
  first frame ever loaded), and there is none when the call had no identifier.
\<close>

theorem compress_writes_first_id:
  "(compress E img st = (Inr a, st') \<longrightarrow>
      (\<exists>c r i ids.
         comp_met (self st) = Some c \<and> settings_ref (self st) = Some r \<and>
         img_ids (self st) = Some (i # ids) \<and>
         run_encoder E c img (heap st r) = Inr a \<and>
         destination (self st) = Inr (image_dir (self st) @ [i]) \<and>
         destination (self st') = destination (self st) \<and>
         st' = st\<lparr>fs := (fs st)(image_dir (self st) @ [i] \<mapsto> a)\<rparr>)) \<and>
   (compress E img1 st = (Inr a1, st1) \<and> compress E img2 st1 = (Inr a2, st2) \<longrightarrow>
      (\<exists>p. destination (self st) = Inr p \<and> destination (self st1) = Inr p \<and>
         fs st1 p = Some a1 \<and> fs st2 p = Some a2 \<and>
         st2 = st\<lparr>fs := (fs st)(p \<mapsto> a2)\<rparr>)) \<and>
   (comp_met (self st) = Some c \<and> settings_ref (self st) = Some r \<and>
    img_ids (self st) = Some (i # ids) \<and> can_open E (image_dir (self st) @ [i]) \<and>
    run_encoder E c img (heap st r) = Inr a \<longrightarrow>
      compress E img st = (Inr a, st\<lparr>fs := (fs st)(image_dir (self st) @ [i] \<mapsto> a)\<rparr>)) \<and>
   self (snd (compress E img st)) = self st \<and>
   self (snd (compress_loop E images st)) = self st \<and>
   destination (self (snd (load_images E loads st))) =
     (case (case loads of None \<Rightarrow> get_frame_ids E st | Some l \<Rightarrow> l) of
        [] \<Rightarrow> Inl IndexError
      | j # js \<Rightarrow> Inr (image_dir (self st) @ [j]))"
proof (intro conjI impI)
  assume "compress E img st = (Inr a, st')"
  from compress_success[OF this] show
    "\<exists>c r i ids.
         comp_met (self st) = Some c \<and> settings_ref (self st) = Some r \<and>
         img_ids (self st) = Some (i # ids) \<and>
         run_encoder E c img (heap st r) = Inr a \<and>
         destination (self st) = Inr (image_dir (self st) @ [i]) \<and>
         destination (self st') = destination (self st) \<and>
         st' = st\<lparr>fs := (fs st)(image_dir (self st) @ [i] \<mapsto> a)\<rparr>"
    by (auto simp: destination_def)
next
  assume h: "compress E img1 st = (Inr a1, st1) \<and> compress E img2 st1 = (Inr a2, st2)"
  from h compress_success[of E img1 st a1 st1] obtain i ids where
    1: "img_ids (self st) = Some (i # ids)"
       "st1 = st\<lparr>fs := (fs st)(image_dir (self st) @ [i] \<mapsto> a1)\<rparr>"
    by blast
  from h compress_success[of E img2 st1 a2 st2] obtain j jds where
    2: "img_ids (self st1) = Some (j # jds)"
       "st2 = st1\<lparr>fs := (fs st1)(image_dir (self st1) @ [j] \<mapsto> a2)\<rparr>"
    by blast
  from 1 2 have "j = i" by simp
  with 1 2 show
    "\<exists>p. destination (self st) = Inr p \<and> destination (self st1) = Inr p \<and>
         fs st1 p = Some a1 \<and> fs st2 p = Some a2 \<and>
         st2 = st\<lparr>fs := (fs st)(p \<mapsto> a2)\<rparr>"
    by (simp add: destination_def)
next
  assume "comp_met (self st) = Some c \<and> settings_ref (self st) = Some r \<and>
    img_ids (self st) = Some (i # ids) \<and> can_open E (image_dir (self st) @ [i]) \<and>
    run_encoder E c img (heap st r) = Inr a"
  then show "compress E img st = (Inr a, st\<lparr>fs := (fs st)(image_dir (self st) @ [i] \<mapsto> a)\<rparr>)"
    using compress_returns by blast
next
  show "self (snd (compress E img st)) = self st"
    by (rule compress_self)
next
  show "self (snd (compress_loop E images st)) = self st"
    by (rule compress_loop_self)
next
  show "destination (self (snd (load_images E loads st))) =
     (case (case loads of None \<Rightarrow> get_frame_ids E st | Some l \<Rightarrow> l) of
        [] \<Rightarrow> Inl IndexError
      | j # js \<Rightarrow> Inr (image_dir (self st) @ [j]))"
    by (rule load_images_destination)
qed

theorem compress_writes_first_id_witness:
  "(let st0 = snd (load_images stored (Some [''0002'', ''0003'']) loaded);
        st1 = snd (compress stored (UInt8 [1] [7]) st0);
        st2 = snd (compress stored (UInt8 [1] [8]) st1)
    in img_ids (self st0) = Some [''0002'', ''0003''] \<and>
       compress stored (UInt8 [1] [7]) st0 =
         (Inr [7], st0\<lparr>fs := (fs st0)([''res'', ''rendering'', ''0002''] \<mapsto> [7])\<rparr>) \<and>
       compress stored (UInt8 [1] [8]) st1 =
         (Inr [8], st0\<lparr>fs := (fs st0)([''res'', ''rendering'', ''0002''] \<mapsto> [8])\<rparr>) \<and>
       fs st2 [''res'', ''rendering'', ''0002''] = Some [8] \<and>
       fs st2 [''res'', ''rendering'', ''0003''] = None)"
proof -
  let ?st0 = "snd (load_images stored (Some [''0002'', ''0003'']) loaded)"
  let ?p = "[''res'', ''rendering'', ''0002'']"
  let ?st1 = "?st0\<lparr>fs := (fs ?st0)(?p \<mapsto> [7])\<rparr>"
  let ?st2 = "?st0\<lparr>fs := (fs ?st0)(?p \<mapsto> [8])\<rparr>"
  have s: "comp_met (self ?st0) = Some (BuiltinCompress Lzma)"
          "settings_ref (self ?st0) = Some 0"
          "img_ids (self ?st0) = Some [''0002'', ''0003'']"
          "image_dir (self ?st0) @ [''0002''] = ?p"
          "fs ?st0 = fs loaded"
          "heap ?st0 0 = heap loaded 0"
    by (simp_all add: load_images_def loaded_def stored_def Let_def)
  have e: "run_encoder stored (BuiltinCompress Lzma) (UInt8 [1] [7]) (heap ?st0 0) = Inr [7]"
          "run_encoder stored (BuiltinCompress Lzma) (UInt8 [1] [8]) (heap ?st0 0) = Inr [8]"
    by (simp_all add: run_encoder_def decorate_builtin_compress_def stored_def)
  have o: "can_open stored (image_dir (self ?st0) @ [''0002''])"
    by (simp add: stored_def)
  from compress_writes_first_id
         [where E = stored and st = ?st0 and c = "BuiltinCompress Lzma" and r = 0
            and i = "''0002''" and ids = "[''0003'']" and img = "UInt8 [1] [7]" and a = "[7]",
          THEN conjunct2, THEN conjunct2, THEN conjunct1] s e o
  have 1: "compress stored (UInt8 [1] [7]) ?st0 = (Inr [7], ?st1)"
    by simp
  from compress_writes_first_id
         [where E = stored and st = ?st1 and c = "BuiltinCompress Lzma" and r = 0
            and i = "''0002''" and ids = "[''0003'']" and img = "UInt8 [1] [8]" and a = "[8]",
          THEN conjunct2, THEN conjunct2, THEN conjunct1] s e o
  have 2: "compress stored (UInt8 [1] [8]) ?st1 = (Inr [8], ?st2)"
    by simp
  have f: "fs loaded [''res'', ''rendering'', ''0003''] = None"
    by (simp add: loaded_def)
  have 3: "fs ?st2 ?p = Some [8]" "fs ?st2 [''res'', ''rendering'', ''0003''] = None"
    by (simp_all add: s(5) f)
  from 1 2 3 s(3) show ?thesis
    by (simp add: Let_def)
qed

end
